theory Spec2Isabelle
  imports Main "HOL-Library.Word"
begin

section \<open>Data model (pkg/art/art.proto and the lnd RPC messages)\<close>

text \<open>
  Go strings are \<open>string\<close>, \<open>[]byte\<close> is a list of 8-bit words and \<open>uint32\<close> is a
  32-bit word. A pointer that the code dereferences and that may be nil is an \<open>option\<close>.
  Every record field carries the name of its message as a prefix, because several
  messages of art.proto share field names (\<open>pubkey\<close>, \<open>artist_id\<close>, \<open>title\<close>).
\<close>

type_synonym bytes = "8 word list"

record Artist =
  Artist_ArtistId :: string
  Artist_Name :: string
  Artist_Pubkey :: string

record Album =
  Album_ArtistId :: string
  Album_ArtistAlbumId :: string
  Album_Title :: string
  Album_ArtistTrackId :: "string list"

record Track =
  Track_ArtistId :: string
  Track_ArtistAlbumId :: string
  Track_ArtistTrackId :: string
  Track_AlbumTrackNumber :: "32 word"
  Track_Title :: string

record Peer =
  Peer_Pubkey :: string
  Peer_Host :: string
  Peer_Port :: "32 word"

record ArtResources =
  Artists :: "Artist list"
  Albums :: "Album list"
  Tracks :: "Track list"
  Peers :: "Peer list"

record ArtistPublication =
  Publication_Artist :: "Artist option"
  Publication_Signature :: string
  SerializedArtResources :: bytes

text \<open>
  Go's \<open>error\<close> values: the sentinel \<open>ErrArtNotFound\<close> that the code compares with,
  the errors the code builds itself with \<open>fmt.Errorf\<close>, and the errors that come back
  from a collaborator (lnd, protobuf, the content store, the network).
\<close>

datatype error = ErrArtNotFound | Errorf string | ExternalError string

text \<open>
  How a call ends: it returns, it panics (a nil pointer is dereferenced), or the process
  exits inside \<open>log.Fatalf\<close>.
\<close>

datatype 'a outcome = Return 'a | Panic | Exit

subsection \<open>The signing oracle (lnrpc.LightningClient) and the protobuf library\<close>

record SignMessageResponse =
  Response_Signature :: string

record VerifyMessageResponse =
  Valid :: bool
  Response_Pubkey :: string

text \<open>
  The lnd client is an interface value; the model takes its three RPCs as functions of
  the request fields (\<open>Msg\<close>; \<open>Msg\<close> and \<open>Signature\<close>; none). \<open>Inl\<close> is the RPC's error.
\<close>

record LightningClient =
  SignMessage :: "bytes \<Rightarrow> error + SignMessageResponse"
  VerifyMessage :: "bytes \<Rightarrow> string \<Rightarrow> error + VerifyMessageResponse"
  GetInfo :: "error + string"

text \<open>\<open>proto.Marshal\<close> and \<open>proto.Unmarshal\<close> of github.com/golang/protobuf, for ArtResources.\<close>

record Proto =
  Marshal :: "ArtResources \<Rightarrow> error + bytes"
  Unmarshal :: "bytes \<Rightarrow> error + ArtResources"

record LightningNode =
  lightningClient :: LightningClient
  publishingArtist :: "Artist option"

text \<open>
  What a method of the node does to the outside, in order: the library and RPC calls
  with their arguments, and the lines it logs (the format string stands for the line).
\<close>

datatype node_event =
  MarshalCall ArtResources
  | SignMessageCall bytes
  | VerifyMessageCall bytes string
  | UnmarshalCall bytes
  | LogPrintf string

section \<open>internal/lightningnode.go\<close>

text \<open>\<open>func (lightningNode *LightningNode) Artist() (*art.Artist, error)\<close>\<close>

definition Artist :: "LightningNode \<Rightarrow> Artist option \<times> error option" where
  "Artist lightningNode = (publishingArtist lightningNode, None)"

text \<open>
  \<open>func (lightningNode *LightningNode) Sign(resources *art.ArtResources)
  (*art.ArtistPublication, error)\<close>. The result is the trace of calls and the returned
  pair; a nil pointer of the pair is \<open>None\<close>.
\<close>

definition Sign ::
  "Proto \<Rightarrow> LightningNode \<Rightarrow> ArtResources \<Rightarrow>
   node_event list \<times> ArtistPublication option \<times> error option" where
  "Sign proto lightningNode resources =
    (case Marshal proto resources of
       Inl err \<Rightarrow>
         ([MarshalCall resources, LogPrintf ''lightning Sign Marshal %v, error: %v''],
          None, Some err)
     | Inr marshaledResources \<Rightarrow>
        (case SignMessage (lightningClient lightningNode) marshaledResources of
           Inl err \<Rightarrow>
             ([MarshalCall resources, SignMessageCall marshaledResources,
               LogPrintf ''lightning Sign SignMessage error: %v''],
              None, Some err)
         | Inr signMessageResult \<Rightarrow>
             ([MarshalCall resources, SignMessageCall marshaledResources,
               LogPrintf ''lightning Sign Signed message %v, signature: %v''],
              Some \<lparr>Publication_Artist = publishingArtist lightningNode,
                    Publication_Signature = Response_Signature signMessageResult,
                    SerializedArtResources = marshaledResources\<rparr>,
              None)))"

text \<open>
  \<open>func (lightningNode *LightningNode) ValidatePublication(publication
  *art.ArtistPublication) (*art.ArtResources, error)\<close>.

  The third check reads \<open>publication.Artist.Pubkey\<close> through the \<open>Artist\<close> pointer, which
  is nil when the message has no artist: that is the \<open>Panic\<close> branch. On a pubkey mismatch
  the code executes \<open>return nil, err\<close> with the \<open>err\<close> of the VerifyMessage call, which is
  nil at that point (line 140 returned otherwise): the returned pair is \<open>(None, None)\<close>.
\<close>

definition ValidatePublication ::
  "Proto \<Rightarrow> LightningNode \<Rightarrow> ArtistPublication \<Rightarrow>
   node_event list \<times> (ArtResources option \<times> error option) outcome" where
  "ValidatePublication proto lightningNode publication =
    (case VerifyMessage (lightningClient lightningNode)
            (SerializedArtResources publication) (Publication_Signature publication) of
       Inl err \<Rightarrow>
         ([VerifyMessageCall (SerializedArtResources publication)
             (Publication_Signature publication),
           LogPrintf ''lightningNode ValidatePublication failed to verify message, error: %v''],
          Return (None, Some err))
     | Inr verifyMessageResponse \<Rightarrow>
         if \<not> Valid verifyMessageResponse then
           ([VerifyMessageCall (SerializedArtResources publication)
               (Publication_Signature publication),
             LogPrintf ''lightningNode ValidatePublication Signature %s is not valid for message %v''],
            Return (None, Some (Errorf ''Signature failed verification'')))
         else
           (case Publication_Artist publication of
              None \<Rightarrow>
                ([VerifyMessageCall (SerializedArtResources publication)
                    (Publication_Signature publication)],
                 Panic)
            | Some artist \<Rightarrow>
                if Response_Pubkey verifyMessageResponse \<noteq> Artist_Pubkey artist then
                  ([VerifyMessageCall (SerializedArtResources publication)
                      (Publication_Signature publication),
                    LogPrintf ''lightningNode ValidatePublication Signature pubkey %s does not match pubkey for publishing artist %v''],
                   Return (None, None))
                else
                  (case Unmarshal proto (SerializedArtResources publication) of
                     Inl err \<Rightarrow>
                       ([VerifyMessageCall (SerializedArtResources publication)
                           (Publication_Signature publication),
                         UnmarshalCall (SerializedArtResources publication),
                         LogPrintf ''lightningNode ValidatePublication Unmarshal error: %v''],
                        Return (None, Some err))
                   | Inr artResources \<Rightarrow>
                       ([VerifyMessageCall (SerializedArtResources publication)
                           (Publication_Signature publication),
                         UnmarshalCall (SerializedArtResources publication)],
                        Return (Some artResources, None)))))"

text \<open>\<open>func pubkey(lightningClient lnrpc.LightningClient) (string, error)\<close> and the method
  \<open>Pubkey\<close> that calls it.\<close>

definition pubkey :: "LightningClient \<Rightarrow> string \<times> error option" where
  "pubkey client =
    (case GetInfo client of
       Inl err \<Rightarrow> ('''', Some err)
     | Inr identityPubkey \<Rightarrow> (identityPubkey, None))"

definition Pubkey :: "LightningNode \<Rightarrow> string \<times> error option" where
  "Pubkey lightningNode = pubkey (lightningClient lightningNode)"

section \<open>Go's path/filepath.Join (Unix)\<close>

text \<open>
  \<open>storeMp3File\<close> builds the track id with \<open>filepath.Join\<close> of the standard library. On
  Unix the separator is \<open>/\<close>. \<open>Join\<close> skips leading empty elements, joins the others with
  the separator and cleans the result; \<open>Clean\<close> drops empty and \<open>.\<close> elements, resolves
  \<open>..\<close> against the element before it (a rooted path drops a leading \<open>..\<close>, a relative
  one keeps it), and answers \<open>.\<close> for an empty result. The model works element by
  element where the library walks a byte buffer.
\<close>

definition Separator :: char where
  "Separator = CHR ''/''"

fun split_path :: "string \<Rightarrow> string list" where
  "split_path [] = [[]]"
| "split_path (c # cs) =
    (if c = Separator then [] # split_path cs
     else (case split_path cs of
             [] \<Rightarrow> [[c]]
           | e # es \<Rightarrow> (c # e) # es))"

fun strings_Join :: "string list \<Rightarrow> string" where
  "strings_Join [] = []"
| "strings_Join [e] = e"
| "strings_Join (e # es) = e @ Separator # strings_Join es"

text \<open>One element of the path; \<open>out\<close> is the cleaned path so far, last element first.\<close>

definition clean_element :: "bool \<Rightarrow> string list \<Rightarrow> string \<Rightarrow> string list" where
  "clean_element rooted out e =
    (if e = [] \<or> e = ''.'' then out
     else if e = ''..'' then
       (case out of
          [] \<Rightarrow> if rooted then [] else [''..'']
        | x # xs \<Rightarrow> if x = ''..'' then ''..'' # out else xs)
     else e # out)"

definition Clean :: "string \<Rightarrow> string" where
  "Clean path =
    (case path of
       [] \<Rightarrow> ''.''
     | c # cs \<Rightarrow>
        (let rooted = (c = Separator);
             out = rev (foldl (clean_element rooted) [] (split_path path));
             cleaned = (if rooted then [Separator] else []) @ strings_Join out
         in if cleaned = [] then ''.'' else cleaned))"

definition Join :: "string list \<Rightarrow> string" where
  "Join elem =
    (case dropWhile (\<lambda>e. e = []) elem of
       [] \<Rightarrow> []
     | e # es \<Rightarrow> Clean (strings_Join (e # es)))"



section \<open>cmd/austk/austk.go\<close>

subsection \<open>Configuration, collaborators and effects\<close>

text \<open>The fields of \<open>audiostrike.Config\<close> that austk.go reads.\<close>

record Config =
  ArtistID :: string
  AddMp3Filename :: string
  RunAsDaemon :: bool
  PlayMp3 :: bool
  Config_Pubkey :: string
  RestHost :: string
  TorProxy :: string

text \<open>An opened mp3 file, as far as austk.go asks it: the answers of its tag methods
  \<open>ArtistName()\<close>, \<open>Title()\<close> and \<open>AlbumTitle()\<close> (title and whether there is an album).\<close>

record Mp3 =
  Mp3_ArtistName :: string
  Mp3_Title :: string
  Mp3_AlbumTitle :: "string \<times> bool"

text \<open>
  Everything austk.go calls outside its own file, as functions of a world \<open>'w\<close> that each
  call may change (the content store, the file system, the network, lnd): the methods of
  \<open>localStorage\<close>, of the \<open>AustkServer\<close> (a handle \<open>'s\<close>), of a peer \<open>Client\<close> (a handle
  \<open>'c\<close>) and of an \<open>Mp3\<close>, and the package functions of \<open>internal\<close>. A Go result
  \<open>(value, error)\<close> is a sum where the code tests the error only, and a pair of options
  where the code also looks at the pointer. \<open>NameToID\<close>, \<open>TitleToHierarchy\<close> and
  \<open>TrackFilePath\<close> compute a string from their argument.

  \<open>AustkServer.Artist\<close> is the one method that main calls on a pointer it has not
  checked (line 80, after a failed \<open>injectPublisher\<close>). Go makes the call on a nil
  receiver too, and what happens then is decided inside the method, which is not in this
  file: \<open>Server_Artist\<close> takes the pointer as it is, nil included, and answers with an
  outcome, so that it may return or panic on any receiver.
\<close>

record ('w, 'c, 's) Collaborators =
  injectPublisher :: "'w \<Rightarrow> ('s option \<times> error option) \<times> 'w"
  Server_Artist :: "'s option \<Rightarrow> 'w \<Rightarrow> (Artist option \<times> error option) outcome \<times> 'w"
  Server_Pubkey :: "'s \<Rightarrow> 'w \<Rightarrow> (error + string) \<times> 'w"
  Server_Sign :: "'s \<Rightarrow> ArtResources \<Rightarrow> 'w \<Rightarrow> (error + ArtistPublication) \<times> 'w"
  OpenMp3ToRead :: "string \<Rightarrow> 'w \<Rightarrow> (error + Mp3) \<times> 'w"
  ReadBytes :: "Mp3 \<Rightarrow> 'w \<Rightarrow> (error + bytes) \<times> 'w"
  PlayAndWait :: "Mp3 \<Rightarrow> 'w \<Rightarrow> 'w"
  NameToID :: "string \<Rightarrow> string"
  TitleToHierarchy :: "string \<Rightarrow> string"
  CollectResources :: "'w \<Rightarrow> (error + ArtResources) \<times> 'w"
  Storage_Artist :: "string \<Rightarrow> 'w \<Rightarrow> (Artist option \<times> error option) \<times> 'w"
  StoreArtist :: "Artist \<Rightarrow> 'w \<Rightarrow> error option \<times> 'w"
  StoreAlbum :: "Album \<Rightarrow> 's \<Rightarrow> 'w \<Rightarrow> error option \<times> 'w"
  StoreTrack :: "Track \<Rightarrow> 's \<Rightarrow> 'w \<Rightarrow> error option \<times> 'w"
  StoreTrackPayload :: "Track \<Rightarrow> bytes \<Rightarrow> 'w \<Rightarrow> error option \<times> 'w"
  StorePublication :: "ArtistPublication \<Rightarrow> 'w \<Rightarrow> error option \<times> 'w"
  Storage_Peers :: "'w \<Rightarrow> (Peer list \<times> error option) \<times> 'w"
  TrackFilePath :: "Track \<Rightarrow> string"
  NewClient :: "string \<Rightarrow> string \<Rightarrow> 's \<Rightarrow> 'w \<Rightarrow> (error + 'c) \<times> 'w"
  SyncFromPeer :: "'c \<Rightarrow> 'w \<Rightarrow> (ArtResources option \<times> error option) \<times> 'w"
  DownloadTracks :: "'c \<Rightarrow> Track list \<Rightarrow> 'w \<Rightarrow> error option \<times> 'w"
  CloseConnection :: "'c \<Rightarrow> 'w \<Rightarrow> 'w"

text \<open>
  The trace of austk.go: every call of a collaborator with its arguments and what it
  answered, and every line logged with \<open>log.Printf\<close> or \<open>log.Fatalf\<close> (the format string
  stands for the line).
\<close>

datatype ('c, 's) austk_event =
  Printf string
  | Fatalf string
  | InjectPublisherCall "'s option \<times> error option"
  | ServerArtistCall "'s option" "(Artist option \<times> error option) outcome"
  | ServerPubkeyCall 's "error + string"
  | ServerSignCall 's ArtResources "error + ArtistPublication"
  | OpenMp3ToReadCall string "error + Mp3"
  | ReadBytesCall Mp3 "error + bytes"
  | PlayAndWaitCall Mp3
  | CollectResourcesCall "error + ArtResources"
  | StorageArtistCall string "Artist option \<times> error option"
  | StoreArtistCall Artist "error option"
  | StoreAlbumCall Album "error option"
  | StoreTrackCall Track "error option"
  | StoreTrackPayloadCall Track bytes "error option"
  | StorePublicationCall ArtistPublication "error option"
  | PeersCall "Peer list \<times> error option"
  | NewClientCall string string "error + 'c"
  | SyncFromPeerCall 'c "ArtResources option \<times> error option"
  | DownloadTracksCall 'c "Track list" "error option"
  | CloseConnectionCall 'c

text \<open>
  A piece of austk.go is a function from the world to the events it produced, the world
  it left and its outcome. \<open>andThen\<close> runs the rest of the code after a piece that
  returned; a panic or an exit in \<open>log.Fatalf\<close> ends the run there.
\<close>

type_synonym ('e, 'w, 'a) run = "'w \<Rightarrow> 'e list \<times> 'w \<times> 'a outcome"

definition andThen :: "('e, 'w, 'a) run \<Rightarrow> ('a \<Rightarrow> ('e, 'w, 'b) run) \<Rightarrow> ('e, 'w, 'b) run" where
  "andThen m f w =
    (case m w of
       (t, w', Return a) \<Rightarrow> (case f a w' of (t', w'', r) \<Rightarrow> (t @ t', w'', r))
     | (t, w', Panic) \<Rightarrow> (t, w', Panic)
     | (t, w', Exit) \<Rightarrow> (t, w', Exit))"

definition ret :: "'a \<Rightarrow> ('e, 'w, 'a) run" where
  "ret a w = ([], w, Return a)"

definition call :: "('r \<Rightarrow> 'e) \<Rightarrow> ('w \<Rightarrow> 'r \<times> 'w) \<Rightarrow> ('e, 'w, 'r) run" where
  "call event f w = (case f w of (r, w') \<Rightarrow> ([event r], w', Return r))"

text \<open>A call that may itself panic or exit: the run ends as the call ended.\<close>

definition invoke :: "('r outcome \<Rightarrow> 'e) \<Rightarrow> ('w \<Rightarrow> 'r outcome \<times> 'w) \<Rightarrow> ('e, 'w, 'r) run"
  where
  "invoke event f w = (case f w of (r, w') \<Rightarrow> ([event r], w', r))"

definition effect :: "'e \<Rightarrow> ('w \<Rightarrow> 'w) \<Rightarrow> ('e, 'w, unit) run" where
  "effect event f w = ([event], f w, Return ())"

definition logPrintf :: "string \<Rightarrow> (('c, 's) austk_event, 'w, unit) run" where
  "logPrintf line w = ([Printf line], w, Return ())"

definition logFatalf :: "string \<Rightarrow> (('c, 's) austk_event, 'w, 'a) run" where
  "logFatalf line w = ([Fatalf line], w, Exit)"

definition nilDereference :: "('e, 'w, 'a) run" where
  "nilDereference w = ([], w, Panic)"

subsection \<open>main, lines 72 to 81: the publisher is injected\<close>


subsection \<open>setArtistPubkey and storeMp3File\<close>

text \<open>
  \<open>func setArtistPubkey(cfg, austkServer, localStorage, artist) error\<close>: both failures end
  in \<open>log.Fatalf\<close>, so the function returns nil or not at all. The artist is stored with
  the server's pubkey written into it.
\<close>

definition setArtistPubkey ::
  "('w, 'c, 's) Collaborators \<Rightarrow> Config \<Rightarrow> 's \<Rightarrow> Artist \<Rightarrow>
   (('c, 's) austk_event, 'w, error option) run" where
  "setArtistPubkey env cfg austkServer artist =
    andThen (call (ServerPubkeyCall austkServer) (Server_Pubkey env austkServer)) (\<lambda>answer.
    case answer of
      Inl err \<Rightarrow> logFatalf ''austk setArtistPubkey s.Pubkey error: %v''
    | Inr serverPubkey \<Rightarrow>
        andThen (call (StoreArtistCall (artist\<lparr>Artist_Pubkey := serverPubkey\<rparr>))
                   (StoreArtist env (artist\<lparr>Artist_Pubkey := serverPubkey\<rparr>))) (\<lambda>err.
        case err of
          Some e \<Rightarrow> logFatalf ''austk setArtistPubkey StoreArtist %v, error: %v''
        | None \<Rightarrow> ret None))"

text \<open>
  \<open>func storeMp3File(cfg, filename, localStorage, austkServer) (*audiostrike.Mp3, error)\<close>,
  in the order of the source: the part that stores an artist not yet known (lines 214 to
  225, giving the \<open>err\<close> that line 226 tests), the part from the track payload to the
  publication (lines 266 to 297), the part that derives the ids and stores album and track
  (lines 232 to 264), and the function itself.
\<close>

definition storeMp3File_artist ::
  "('w, 'c, 's) Collaborators \<Rightarrow> Config \<Rightarrow> 's \<Rightarrow> string \<Rightarrow> string \<Rightarrow>
   (('c, 's) austk_event, 'w, error option) run" where
  "storeMp3File_artist env cfg austkServer artistName artistID =
    (let artist = \<lparr>Artist_ArtistId = artistID, Artist_Name = artistName,
                    Artist_Pubkey = []\<rparr>
     in
     if artistID = ArtistID cfg then
       andThen (logPrintf ''austk storeMp3File store artist %v with pubkey from lnd'')
         (\<lambda>_. setArtistPubkey env cfg austkServer artist)
     else
       andThen (logPrintf ''austk storeMp3File store artist %v without pubkey'')
         (\<lambda>_. call (StoreArtistCall artist) (StoreArtist env artist)))"

definition storeMp3File_publication ::
  "('w, 'c, 's) Collaborators \<Rightarrow> 's \<Rightarrow> Mp3 \<Rightarrow> Track \<Rightarrow>
   (('c, 's) austk_event, 'w, Mp3 option \<times> error option) run" where
  "storeMp3File_publication env austkServer mp3 track =
    andThen (call (ReadBytesCall mp3) (ReadBytes env mp3)) (\<lambda>bytesRead.
    case bytesRead of
      Inl e \<Rightarrow>
        andThen (logPrintf ''austk storeMp3File ReadBytes error: %v'') (\<lambda>_.
        ret (None, Some e))
    | Inr trackPayload \<Rightarrow>
    andThen (call (StoreTrackPayloadCall track trackPayload)
               (StoreTrackPayload env track trackPayload)) (\<lambda>err.
    case err of
      Some e \<Rightarrow>
        andThen (logPrintf ''austk storeMp3File StoreTrackPayload for %s/%s with %d bytes, error: %v'')
          (\<lambda>_.
        ret (None, Some e))
    | None \<Rightarrow>
    andThen (call CollectResourcesCall (CollectResources env)) (\<lambda>collected.
    case collected of
      Inl e \<Rightarrow>
        andThen (logPrintf ''austk storeMp3File Failed to collect resources, error: %v'') (\<lambda>_.
        ret (None, Some e))
    | Inr resources \<Rightarrow>
    andThen (call (ServerSignCall austkServer resources)
               (Server_Sign env austkServer resources)) (\<lambda>signResult.
    case signResult of
      Inl e \<Rightarrow>
        andThen (logPrintf ''austk storeMp3File Failed to sign resources %v, error: %v'') (\<lambda>_.
        ret (None, Some e))
    | Inr publication \<Rightarrow>
    andThen (call (StorePublicationCall publication) (StorePublication env publication))
      (\<lambda>err.
    case err of
      Some e \<Rightarrow>
        andThen (logPrintf ''austk storeMp3File Failed to store publication %v, error: %v'')
          (\<lambda>_.
        ret (None, Some e))
    | None \<Rightarrow> ret (Some mp3, None))))))"

text \<open>
  The variable \<open>err\<close> that \<open>StoreAlbum\<close> assigns at line 242 is not read before line 260
  assigns it again: the album branch goes on with the ids whatever \<open>StoreAlbum\<close> answered.
\<close>

definition storeMp3File_track ::
  "('w, 'c, 's) Collaborators \<Rightarrow> 's \<Rightarrow> Mp3 \<Rightarrow> string \<Rightarrow>
   (('c, 's) austk_event, 'w, Mp3 option \<times> error option) run" where
  "storeMp3File_track env austkServer mp3 artistID =
    (let trackTitle = Mp3_Title mp3;
         albumTitle = fst (Mp3_AlbumTitle mp3);
         isInAlbum = snd (Mp3_AlbumTitle mp3);
         trackTitleID = NameToID env trackTitle
     in
    andThen (logPrintf ''austk storeMp3File file: %v Title: %v Artist: %v Album: %v Tags: %v'')
      (\<lambda>_.
    andThen
      (if isInAlbum then
         (let artistAlbumID = TitleToHierarchy env albumTitle;
              album = \<lparr>Album_ArtistId = artistID, Album_ArtistAlbumId = artistAlbumID,
                       Album_Title = albumTitle, Album_ArtistTrackId = []\<rparr>
          in
          andThen (call (StoreAlbumCall album) (StoreAlbum env album austkServer)) (\<lambda>err.
          ret (artistAlbumID, Join [artistAlbumID, trackTitleID])))
       else ret ([], trackTitleID)) (\<lambda>(artistAlbumID, artistTrackID).
    (let track = \<lparr>Track_ArtistId = artistID, Track_ArtistAlbumId = artistAlbumID,
                   Track_ArtistTrackId = artistTrackID, Track_AlbumTrackNumber = 0,
                   Track_Title = trackTitle\<rparr>
     in
    andThen (call (StoreTrackCall track) (StoreTrack env track austkServer)) (\<lambda>err.
    case err of
      Some e \<Rightarrow>
        andThen (logPrintf ''austk storeMp3File StoreTrack %v, error: %v'') (\<lambda>_.
        ret (None, Some e))
    | None \<Rightarrow> storeMp3File_publication env austkServer mp3 track)))))"

definition storeMp3File ::
  "('w, 'c, 's) Collaborators \<Rightarrow> Config \<Rightarrow> string \<Rightarrow> 's \<Rightarrow>
   (('c, 's) austk_event, 'w, Mp3 option \<times> error option) run" where
  "storeMp3File env cfg filename austkServer =
    andThen (call (OpenMp3ToReadCall filename) (OpenMp3ToRead env filename)) (\<lambda>opened.
    case opened of
      Inl err \<Rightarrow> ret (None, Some err)
    | Inr mp3 \<Rightarrow>
    (let artistName = Mp3_ArtistName mp3;
         artistID = NameToID env artistName
     in
    andThen (call (StorageArtistCall artistID) (Storage_Artist env artistID)) (\<lambda>(artist, err).
    if err \<noteq> None \<and> err \<noteq> Some ErrArtNotFound then
      logFatalf ''austk storeMp3File failed to get artist %s, error: %v''
    else
    andThen
      (if artist = None then storeMp3File_artist env cfg austkServer artistName artistID
       else ret None) (\<lambda>err.
    case err of
      Some e \<Rightarrow>
        andThen (logPrintf ''austk storeMp3File StoreArtist %v, error: %v'') (\<lambda>_.
        ret (None, Some e))
    | None \<Rightarrow> storeMp3File_track env austkServer mp3 artistID))))"

subsection \<open>playTracks and the sync loop of main, lines 129 to 168\<close>

text \<open>\<open>%d\<close> of \<open>fmt.Sprintf\<close> for an unsigned number.\<close>

function decimal :: "nat \<Rightarrow> string" where
  "decimal n =
    (if n < 10 then [''0123456789'' ! n]
     else decimal (n div 10) @ [''0123456789'' ! (n mod 10)])"
  by pat_completeness auto
termination
  by (relation "measure id") auto

text \<open>\<open>fmt.Sprintf("%s:%d", peer.Host, peer.Port)\<close>\<close>

definition peerAddress :: "Peer \<Rightarrow> string" where
  "peerAddress peer = Peer_Host peer @ '':'' @ decimal (unat (Peer_Port peer))"

text \<open>
  \<open>func playTracks(tracks []*art.Track, fileServer *audiostrike.FileServer) error\<close>:
  a track that cannot be opened ends the process in \<open>log.Fatalf\<close>.
\<close>

primrec playTracks ::
  "('w, 'c, 's) Collaborators \<Rightarrow> Track list \<Rightarrow> (('c, 's) austk_event, 'w, error option) run"
  where
  "playTracks env [] = ret None"
| "playTracks env (track # tracks) =
    andThen (call (OpenMp3ToReadCall (TrackFilePath env track))
               (OpenMp3ToRead env (TrackFilePath env track))) (\<lambda>opened.
    case opened of
      Inl err \<Rightarrow> logFatalf ''austk playTracks OpenMp3ToRead %v, error: %v''
    | Inr mp3 \<Rightarrow>
        andThen (effect (PlayAndWaitCall mp3) (PlayAndWait env mp3)) (\<lambda>_.
        playTracks env tracks))"

text \<open>The guard of line 134: the peer entry is this node itself.\<close>

definition isSelf :: "Config \<Rightarrow> Peer \<Rightarrow> bool" where
  "isSelf cfg peer = (Peer_Pubkey peer = Config_Pubkey cfg \<and> Peer_Host peer = RestHost cfg)"

text \<open>
  The body of the loop over the peers, lines 134 to 167, for one peer. It returns when
  the loop goes on with the next peer (at either \<open>continue\<close> or at the end of the body).
  With \<open>PlayMp3\<close> the body reads \<open>resources.Tracks\<close> through the pointer that
  \<open>SyncFromPeer\<close> returned.
\<close>

definition syncPeer ::
  "('w, 'c, 's) Collaborators \<Rightarrow> Config \<Rightarrow> 's \<Rightarrow> Peer \<Rightarrow> (('c, 's) austk_event, 'w, unit) run"
  where
  "syncPeer env cfg austkServer peer =
    (if isSelf cfg peer then
       logPrintf ''austk main skip sync from self pubkey %v''
     else
       andThen (logPrintf ''austk main sync from peer %v'') (\<lambda>_.
       andThen (call (NewClientCall (TorProxy cfg) (peerAddress peer))
                  (NewClient env (TorProxy cfg) (peerAddress peer) austkServer)) (\<lambda>dialed.
       case dialed of
         Inl err \<Rightarrow>
           logFatalf ''austk main NewClient via torProxy %v to peerAddress %v, error: %v''
       | Inr client \<Rightarrow>
           andThen (call (SyncFromPeerCall client) (SyncFromPeer env client))
             (\<lambda>(resources, err).
           if err \<noteq> None then
             andThen (logPrintf ''austk main SyncFromPeer error: %v'') (\<lambda>_.
             effect (CloseConnectionCall client) (CloseConnection env client))
           else
             andThen
               (if PlayMp3 cfg then
                  (case resources of
                     None \<Rightarrow> nilDereference
                   | Some synced \<Rightarrow>
                       (let tracks = Tracks synced in
                        andThen (logPrintf ''download %d tracks to play...'') (\<lambda>_.
                        andThen (call (DownloadTracksCall client tracks)
                                   (DownloadTracks env client tracks)) (\<lambda>err.
                        andThen (case err of
                                   Some e \<Rightarrow> logPrintf ''austk main DownloadTracks error: %v''
                                 | None \<Rightarrow> ret ()) (\<lambda>_.
                        andThen (playTracks env tracks) (\<lambda>err. ret ()))))))
                else logPrintf ''will not play tracks'') (\<lambda>_.
             effect (CloseConnectionCall client) (CloseConnection env client))))))"

text \<open>\<open>for _, peer := range peers\<close>\<close>

primrec syncPeers ::
  "('w, 'c, 's) Collaborators \<Rightarrow> Config \<Rightarrow> 's \<Rightarrow> Peer list \<Rightarrow>
   (('c, 's) austk_event, 'w, unit) run" where
  "syncPeers env cfg austkServer [] = ret ()"
| "syncPeers env cfg austkServer (peer # peers) =
    andThen (syncPeer env cfg austkServer peer) (\<lambda>_. syncPeers env cfg austkServer peers)"

text \<open>Lines 129 to 168: the stored peers are read (an error is only logged) and synced.\<close>

definition main_syncPeers ::
  "('w, 'c, 's) Collaborators \<Rightarrow> Config \<Rightarrow> 's \<Rightarrow> (('c, 's) austk_event, 'w, unit) run" where
  "main_syncPeers env cfg austkServer =
    andThen (call PeersCall (Storage_Peers env)) (\<lambda>(peers, err).
    andThen (if err \<noteq> None
             then logPrintf ''austk main failed to get Peers from localStorage, error: %v''
             else ret ()) (\<lambda>_.
    syncPeers env cfg austkServer peers))"


section \<open>Example values\<close>

text \<open>
  A catalog, its serialized form, a protobuf codec that knows that one catalog, and an lnd
  client whose key is \<open>k\<close>: it signs the serialized catalog and verifies exactly that
  message with that signature.
\<close>


definition ex_artist :: "string \<Rightarrow> Artist" where
  "ex_artist k = \<lparr>Artist_ArtistId = ''aliceinchains'', Artist_Name = ''Alice in Chains'', Artist_Pubkey = k\<rparr>"

definition ex_resources :: ArtResources where
  "ex_resources =
    \<lparr>Artists = [ex_artist ''02k1''],
     Albums = [\<lparr>Album_ArtistId = ''aliceinchains'', Album_ArtistAlbumId = ''dirt'',
                Album_Title = ''Dirt'', Album_ArtistTrackId = [''dirt/would'']\<rparr>],
     Tracks = [\<lparr>Track_ArtistId = ''aliceinchains'', Track_ArtistAlbumId = ''dirt'',
                Track_ArtistTrackId = ''dirt/would'', Track_AlbumTrackNumber = 1,
                Track_Title = ''Would?''\<rparr>],
     Peers = []\<rparr>"

definition ex_bytes :: bytes where
  "ex_bytes = [10, 3, 1, 2, 3]"

definition ex_proto :: Proto where
  "ex_proto =
    \<lparr>Marshal = (\<lambda>r. if r = ex_resources then Inr ex_bytes else Inl (ExternalError ''proto: Marshal'')),
     Unmarshal = (\<lambda>b. if b = ex_bytes then Inr ex_resources else Inl (ExternalError ''proto: Unmarshal''))\<rparr>"

definition ex_client :: "string \<Rightarrow> LightningClient" where
  "ex_client k =
    \<lparr>SignMessage = (\<lambda>msg. if msg = ex_bytes then Inr \<lparr>Response_Signature = ''d6sig''\<rparr> else Inl (ExternalError ''rpc error'')),
     VerifyMessage = (\<lambda>msg signature.
        if msg = ex_bytes \<and> signature = ''d6sig''
        then Inr \<lparr>Valid = True, Response_Pubkey = k\<rparr>
        else Inr \<lparr>Valid = False, Response_Pubkey = ''''\<rparr>),
     GetInfo = Inr k\<rparr>"

definition ex_node :: "string \<Rightarrow> LightningNode" where
  "ex_node k = \<lparr>lightningClient = ex_client k, publishingArtist = Some (ex_artist k)\<rparr>"

definition ex_publication :: "string \<Rightarrow> bytes \<Rightarrow> ArtistPublication" where
  "ex_publication k b =
    \<lparr>Publication_Artist = Some (ex_artist k), Publication_Signature = ''d6sig'',
     SerializedArtResources = b\<rparr>"

text \<open>
  Modelled from the spec: \<open>NameToID\<close> and \<open>TitleToHierarchy\<close> are defined in package
  \<open>internal\<close>, outside austk.go. The example collaborators use for both a slug as the
  spec describes it
  (case-folded, punctuation-stripped): letters are lowered, and only letters and digits
  are kept.
\<close>

definition lower_char :: "char \<Rightarrow> char" where
  "lower_char c =
    (case map_of (zip ''ABCDEFGHIJKLMNOPQRSTUVWXYZ'' ''abcdefghijklmnopqrstuvwxyz'') c of
       Some l \<Rightarrow> l
     | None \<Rightarrow> c)"

definition ex_slug :: "string \<Rightarrow> string" where
  "ex_slug name =
    filter (\<lambda>c. c \<in> set ''abcdefghijklmnopqrstuvwxyz0123456789'') (map lower_char name)"

definition ex_mp3 :: "bool \<Rightarrow> Mp3" where
  "ex_mp3 inAlbum =
    \<lparr>Mp3_ArtistName = ''Alice in Chains'', Mp3_Title = ''Would?'',
     Mp3_AlbumTitle = (if inAlbum then (''Dirt'', True) else ([], False))\<rparr>"

definition ex_cfg :: Config where
  "ex_cfg =
    \<lparr>ArtistID = ''aliceinchains'', AddMp3Filename = [], RunAsDaemon = False,
     PlayMp3 = False, Config_Pubkey = ''02k1'', RestHost = ''10.0.0.1'',
     TorProxy = ''socks5://127.0.0.1:9050''\<rparr>"

definition ex_peer :: "string \<Rightarrow> string \<Rightarrow> Peer" where
  "ex_peer k host = \<lparr>Peer_Pubkey = k, Peer_Host = host, Peer_Port = 53545\<rparr>"

text \<open>
  Example collaborators. The world counts the writes to the content store; a client is
  the address it was made for; there is one server, and its \<open>Artist\<close> method reads its
  receiver, so that it panics on a nil one. The parameters choose what the
  publisher injection answers, whether the opened file is in an album, what \<open>StoreAlbum\<close>
  answers, for which addresses \<open>NewClient\<close> fails and for which \<open>SyncFromPeer\<close> fails.
\<close>

definition ex_env ::
  "unit option \<times> error option \<Rightarrow> bool \<Rightarrow> error option \<Rightarrow> string list \<Rightarrow> string list \<Rightarrow>
   (nat, string, unit) Collaborators" where
  "ex_env injected inAlbum albumAnswer noClient noSync =
    \<lparr>injectPublisher = (\<lambda>w. (injected, w)),
     Server_Artist = (\<lambda>s w.
        (case s of
           None \<Rightarrow> Panic
         | Some server \<Rightarrow> Return (Some (ex_artist ''02k1''), None), w)),
     Server_Pubkey = (\<lambda>s w. (Inr ''02k1'', w)),
     Server_Sign = (\<lambda>s resources w. (Inr (ex_publication ''02k1'' ex_bytes), w)),
     OpenMp3ToRead = (\<lambda>filename w. (Inr (ex_mp3 inAlbum), w)),
     ReadBytes = (\<lambda>mp3 w. (Inr [73, 68, 51], w)),
     PlayAndWait = (\<lambda>mp3 w. w),
     NameToID = ex_slug,
     TitleToHierarchy = ex_slug,
     CollectResources = (\<lambda>w. (Inr ex_resources, w)),
     Storage_Artist = (\<lambda>artistID w. ((None, Some ErrArtNotFound), w)),
     StoreArtist = (\<lambda>artist w. (None, Suc w)),
     StoreAlbum = (\<lambda>album s w. (albumAnswer, if albumAnswer = None then Suc w else w)),
     StoreTrack = (\<lambda>track s w. (None, Suc w)),
     StoreTrackPayload = (\<lambda>track payload w. (None, Suc w)),
     StorePublication = (\<lambda>publication w. (None, Suc w)),
     Storage_Peers = (\<lambda>w. (([], None), w)),
     TrackFilePath = (\<lambda>track. ''art/'' @ Track_ArtistId track @ ''/'' @ Track_ArtistTrackId track @ ''.mp3''),
     NewClient = (\<lambda>torProxy address s w.
        (if address \<in> set noClient then Inl (ExternalError ''dial failed'') else Inr address, w)),
     SyncFromPeer = (\<lambda>client w.
        if client \<in> set noSync then ((None, Some (ExternalError ''unreachable'')), w)
        else ((Some ex_resources, None), Suc w)),
     DownloadTracks = (\<lambda>client tracks w. (None, w)),
     CloseConnection = (\<lambda>client w. w)\<rparr>"

section \<open>The publication protocol: signing and validation\<close>

lemma ValidatePublication_mismatch:
  assumes "VerifyMessage (lightningClient node) (SerializedArtResources p)
             (Publication_Signature p) = Inr resp"
    and "Valid resp" and "Publication_Artist p = Some a"
    and "Response_Pubkey resp \<noteq> Artist_Pubkey a"
  shows "ValidatePublication proto node p =
           ([VerifyMessageCall (SerializedArtResources p) (Publication_Signature p),
             LogPrintf ''lightningNode ValidatePublication Signature pubkey %s does not match pubkey for publishing artist %v''],
            Return (None, None))"
  using assms by (simp add: ValidatePublication_def)

text \<open>
  C1. The claim: a publication with a valid signature whose signing pubkey differs from
  \<open>publication.artist.pubkey\<close> makes ValidatePublication fail with an identity-mismatch
  error and no snapshot. The code logs the mismatch and returns no snapshot, but the
  error it returns is the nil \<open>err\<close> left by the successful VerifyMessage call. Here the
  oracle reports key \<open>03k2\<close> for a publication whose envelope names \<open>02k1\<close>: the returned
  pair is \<open>(nil, nil)\<close>, so the caller sees no error.
\<close>

theorem C1_identity_mismatch_returns_nil_error:
  "snd (ValidatePublication ex_proto (ex_node ''03k2'') (ex_publication ''02k1'' ex_bytes))
     = Return (None, None)"
  by (simp add: ValidatePublication_def ex_node_def ex_client_def ex_publication_def
      ex_artist_def)

text \<open>
  C2. When the oracle's VerifyMessage call returns an error, or reports the signature
  invalid for the serialized resources, ValidatePublication returns no snapshot and an
  error (the oracle's own error, or "Signature failed verification"), and the bytes are
  never handed to Unmarshal. Bytes altered after signing are one such case, as soon as
  the oracle rejects them.
\<close>

theorem C2_invalid_signature_rejected:
  assumes "verdict = VerifyMessage (lightningClient node) (SerializedArtResources p)
                       (Publication_Signature p)"
    and "case verdict of Inl e \<Rightarrow> True | Inr resp \<Rightarrow> \<not> Valid resp"
  shows "snd (ValidatePublication proto node p) =
           Return (None, Some (case verdict of Inl e \<Rightarrow> e
                               | Inr resp \<Rightarrow> Errorf ''Signature failed verification''))
         \<and> UnmarshalCall b \<notin> set (fst (ValidatePublication proto node p))"
  using assms by (auto simp add: ValidatePublication_def split: sum.splits)

text \<open>The publication that Sign produced, with its first byte changed from 10 to 11.\<close>

theorem C2_invalid_signature_rejected_witness:
  "snd (Sign ex_proto (ex_node ''02k1'') ex_resources)
     = (Some (ex_publication ''02k1'' ex_bytes), None)
   \<and> snd (ValidatePublication ex_proto (ex_node ''02k1'')
            (ex_publication ''02k1'' (ex_bytes[0 := 11])))
     = Return (None, Some (Errorf ''Signature failed verification''))
   \<and> UnmarshalCall (ex_bytes[0 := 11])
       \<notin> set (fst (ValidatePublication ex_proto (ex_node ''02k1'')
                     (ex_publication ''02k1'' (ex_bytes[0 := 11]))))"
  using C2_invalid_signature_rejected
          [of "Inr \<lparr>Valid = False, Response_Pubkey = ''''\<rparr>" "ex_node ''02k1''"
              "ex_publication ''02k1'' (ex_bytes[0 := 11])" ex_proto "ex_bytes[0 := 11]"]
  by (simp add: Sign_def ex_proto_def ex_node_def ex_client_def ex_publication_def
      ex_bytes_def)

text \<open>
  C3. Unmarshal is called on the serialized resources only when VerifyMessage has
  returned a valid response whose pubkey equals the pubkey of the publication's artist,
  and then the VerifyMessage call is the first event of the trace and the single
  Unmarshal call the second. A snapshot is returned only when, in addition, Unmarshal
  has succeeded; it is the snapshot Unmarshal produced, and the error is nil.
\<close>

theorem C3_unmarshal_only_after_checks:
  "(UnmarshalCall b \<in> set (fst (ValidatePublication proto node p)) \<longrightarrow>
      (\<exists>resp a rest.
         VerifyMessage (lightningClient node) (SerializedArtResources p)
           (Publication_Signature p) = Inr resp
         \<and> Valid resp \<and> Publication_Artist p = Some a
         \<and> Response_Pubkey resp = Artist_Pubkey a
         \<and> b = SerializedArtResources p
         \<and> fst (ValidatePublication proto node p) =
             VerifyMessageCall (SerializedArtResources p) (Publication_Signature p)
               # UnmarshalCall b # rest
         \<and> UnmarshalCall b \<notin> set rest))
   \<and> (snd (ValidatePublication proto node p) = Return (Some r, e) \<longrightarrow>
      (\<exists>resp a.
         VerifyMessage (lightningClient node) (SerializedArtResources p)
           (Publication_Signature p) = Inr resp
         \<and> Valid resp \<and> Publication_Artist p = Some a
         \<and> Response_Pubkey resp = Artist_Pubkey a
         \<and> Unmarshal proto (SerializedArtResources p) = Inr r \<and> e = None
         \<and> fst (ValidatePublication proto node p) =
             [VerifyMessageCall (SerializedArtResources p) (Publication_Signature p),
              UnmarshalCall (SerializedArtResources p)]))"
  by (auto simp add: ValidatePublication_def split: sum.splits option.splits if_splits)

theorem C3_unmarshal_only_after_checks_witness:
  "UnmarshalCall ex_bytes
     \<in> set (fst (ValidatePublication ex_proto (ex_node ''02k1'')
                   (ex_publication ''02k1'' ex_bytes)))
   \<and> snd (ValidatePublication ex_proto (ex_node ''02k1'') (ex_publication ''02k1'' ex_bytes))
       = Return (Some ex_resources, None)
   \<and> VerifyMessage (ex_client ''02k1'') ex_bytes ''d6sig''
       = Inr \<lparr>Valid = True, Response_Pubkey = ''02k1''\<rparr>
   \<and> Unmarshal ex_proto ex_bytes = Inr ex_resources
   \<and> fst (ValidatePublication ex_proto (ex_node ''02k1'') (ex_publication ''02k1'' ex_bytes))
       = [VerifyMessageCall ex_bytes ''d6sig'', UnmarshalCall ex_bytes]"
  using C3_unmarshal_only_after_checks
          [of ex_bytes ex_proto "ex_node ''02k1''" "ex_publication ''02k1'' ex_bytes"
              ex_resources None]
  by (simp add: ValidatePublication_def ex_proto_def ex_node_def ex_client_def
      ex_publication_def ex_artist_def)

text \<open>
  C4. When Marshal has produced the bytes and the oracle's SignMessage succeeds on them,
  Sign calls Marshal once, hands exactly its output to SignMessage, and returns the
  envelope made of the node's publishing artist, the oracle's signature and those same
  bytes, with a nil error.
\<close>

theorem C4_sign_envelope:
  assumes "Marshal proto resources = Inr marshaled"
    and "SignMessage (lightningClient node) marshaled = Inr signMessageResult"
  shows "Sign proto node resources =
           ([MarshalCall resources, SignMessageCall marshaled,
             LogPrintf ''lightning Sign Signed message %v, signature: %v''],
            Some \<lparr>Publication_Artist = publishingArtist node,
                  Publication_Signature = Response_Signature signMessageResult,
                  SerializedArtResources = marshaled\<rparr>,
            None)"
  using assms by (simp add: Sign_def)

theorem C4_sign_envelope_witness:
  "Marshal ex_proto ex_resources = Inr ex_bytes
   \<and> SignMessage (lightningClient (ex_node ''02k1'')) ex_bytes
       = Inr \<lparr>Response_Signature = ''d6sig''\<rparr>
   \<and> Sign ex_proto (ex_node ''02k1'') ex_resources =
       ([MarshalCall ex_resources, SignMessageCall ex_bytes,
         LogPrintf ''lightning Sign Signed message %v, signature: %v''],
        Some \<lparr>Publication_Artist = Some (ex_artist ''02k1''),
              Publication_Signature = ''d6sig'',
              SerializedArtResources = ex_bytes\<rparr>,
        None)"
  using C4_sign_envelope
          [of ex_proto ex_resources ex_bytes "ex_node ''02k1''"
              "\<lparr>Response_Signature = ''d6sig''\<rparr>"]
  by (simp add: ex_proto_def ex_node_def ex_client_def)

text \<open>
  C5. Let the node publish as artist \<open>a\<close>, let Marshal and SignMessage succeed on the
  snapshot, let the oracle verify the signature it gave as valid and made by the pubkey
  of \<open>a\<close>, and let Unmarshal decode what Marshal encoded. Then Sign returns a publication,
  and ValidatePublication of that publication returns the original snapshot with a nil
  error.
\<close>

theorem C5_validate_after_sign:
  assumes "publishingArtist node = Some a"
    and "Marshal proto resources = Inr marshaled"
    and "SignMessage (lightningClient node) marshaled = Inr signMessageResult"
    and "VerifyMessage (lightningClient node) marshaled
           (Response_Signature signMessageResult) =
           Inr \<lparr>Valid = True, Response_Pubkey = Artist_Pubkey a\<rparr>"
    and "Unmarshal proto marshaled = Inr resources"
  shows "\<exists>publication.
           snd (Sign proto node resources) = (Some publication, None)
           \<and> snd (ValidatePublication proto node publication)
               = Return (Some resources, None)"
  using assms by (simp add: Sign_def ValidatePublication_def)

theorem C5_validate_after_sign_witness:
  "publishingArtist (ex_node ''02k1'') = Some (ex_artist ''02k1'')
   \<and> Marshal ex_proto ex_resources = Inr ex_bytes
   \<and> SignMessage (lightningClient (ex_node ''02k1'')) ex_bytes
       = Inr \<lparr>Response_Signature = ''d6sig''\<rparr>
   \<and> VerifyMessage (lightningClient (ex_node ''02k1'')) ex_bytes ''d6sig''
       = Inr \<lparr>Valid = True, Response_Pubkey = ''02k1''\<rparr>
   \<and> Unmarshal ex_proto ex_bytes = Inr ex_resources
   \<and> (\<exists>publication.
         snd (Sign ex_proto (ex_node ''02k1'') ex_resources) = (Some publication, None)
         \<and> snd (ValidatePublication ex_proto (ex_node ''02k1'') publication)
             = Return (Some ex_resources, None))"
  using C5_validate_after_sign
          [of "ex_node ''02k1''" "ex_artist ''02k1''" ex_proto ex_resources ex_bytes
              "\<lparr>Response_Signature = ''d6sig''\<rparr>"]
  by (simp add: ex_proto_def ex_node_def ex_client_def ex_artist_def)

section \<open>filepath.Join on slugs\<close>










section \<open>Traces of austk.go\<close>

lemmas run_defs =
  andThen_def ret_def call_def invoke_def effect_def logPrintf_def logFatalf_def
  nilDereference_def









lemma syncPeers_append:
  "syncPeers env cfg s (xs @ ys) w =
     andThen (syncPeers env cfg s xs) (\<lambda>_. syncPeers env cfg s ys) w"
  by (induction xs arbitrary: w)
     (simp_all add: andThen_def ret_def split: prod.splits outcome.splits)

subsection \<open>The only track that storeMp3File stores\<close>






subsection \<open>The example collaborators, field by field\<close>

lemma ex_env_sel:
  "injectPublisher (ex_env i a b c d) = (\<lambda>w. (i, w))"
  "Server_Artist (ex_env i a b c d) = (\<lambda>s w.
        (case s of
           None \<Rightarrow> Panic
         | Some server \<Rightarrow> Return (Some (ex_artist ''02k1''), None), w))"
  "Server_Pubkey (ex_env i a b c d) = (\<lambda>s w. (Inr ''02k1'', w))"
  "Server_Sign (ex_env i a b c d) = (\<lambda>s resources w. (Inr (ex_publication ''02k1'' ex_bytes), w))"
  "OpenMp3ToRead (ex_env i a b c d) = (\<lambda>filename w. (Inr (ex_mp3 a), w))"
  "ReadBytes (ex_env i a b c d) = (\<lambda>mp3 w. (Inr [73, 68, 51], w))"
  "PlayAndWait (ex_env i a b c d) = (\<lambda>mp3 w. w)"
  "NameToID (ex_env i a b c d) = ex_slug"
  "TitleToHierarchy (ex_env i a b c d) = ex_slug"
  "CollectResources (ex_env i a b c d) = (\<lambda>w. (Inr ex_resources, w))"
  "Storage_Artist (ex_env i a b c d) = (\<lambda>artistID w. ((None, Some ErrArtNotFound), w))"
  "StoreArtist (ex_env i a b c d) = (\<lambda>artist w. (None, Suc w))"
  "StoreAlbum (ex_env i a b c d) = (\<lambda>album s w. (b, if b = None then Suc w else w))"
  "StoreTrack (ex_env i a b c d) = (\<lambda>track s w. (None, Suc w))"
  "StoreTrackPayload (ex_env i a b c d) = (\<lambda>track payload w. (None, Suc w))"
  "StorePublication (ex_env i a b c d) = (\<lambda>publication w. (None, Suc w))"
  "Storage_Peers (ex_env i a b c d) = (\<lambda>w. (([], None), w))"
  "NewClient (ex_env i a b c d) = (\<lambda>torProxy address s w.
        (if address \<in> set c then Inl (ExternalError ''dial failed'') else Inr address, w))"
  "SyncFromPeer (ex_env i a b c d) = (\<lambda>client w.
        if client \<in> set d then ((None, Some (ExternalError ''unreachable'')), w)
        else ((Some ex_resources, None), Suc w))"
  "DownloadTracks (ex_env i a b c d) = (\<lambda>client tracks w. (None, w))"
  "CloseConnection (ex_env i a b c d) = (\<lambda>client w. w)"
  by (simp_all add: ex_env_def)

lemma ex_cfg_sel:
  "ArtistID ex_cfg = ''aliceinchains''"
  "AddMp3Filename ex_cfg = []"
  "RunAsDaemon ex_cfg = False"
  "PlayMp3 ex_cfg = False"
  "Config_Pubkey ex_cfg = ''02k1''"
  "RestHost ex_cfg = ''10.0.0.1''"
  "TorProxy ex_cfg = ''socks5://127.0.0.1:9050''"
  by (simp_all add: ex_cfg_def)

lemma ex_mp3_sel:
  "Mp3_ArtistName (ex_mp3 a) = ''Alice in Chains''"
  "Mp3_Title (ex_mp3 a) = ''Would?''"
  "Mp3_AlbumTitle (ex_mp3 True) = (''Dirt'', True)"
  "Mp3_AlbumTitle (ex_mp3 False) = ([], False)"
  by (simp_all add: ex_mp3_def)

lemma ex_slugs:
  "ex_slug ''Alice in Chains'' = ''aliceinchains''"
  "ex_slug ''Would?'' = ''would''"
  "ex_slug ''Dirt'' = ''dirt''"
  by (simp_all add: ex_slug_def lower_char_def)

lemma ex_Join: "Join [''dirt'', ''would''] = ''dirt/would''"
  by (simp add: Join_def Clean_def clean_element_def Separator_def)

lemma ex_peer_sel:
  "Peer_Pubkey (ex_peer k h) = k"
  "Peer_Host (ex_peer k h) = h"
  "peerAddress (ex_peer k h) = h @ '':53545''"
  by (simp_all add: peerAddress_def ex_peer_def)

lemma ex_isSelf: "isSelf ex_cfg (ex_peer k h) \<longleftrightarrow> k = ''02k1'' \<and> h = ''10.0.0.1''"
  by (simp add: isSelf_def ex_cfg_def ex_peer_def)

lemmas ex_sync = syncPeer_def ex_isSelf ex_peer_sel ex_cfg_sel ex_env_sel run_defs

lemmas ex_store = storeMp3File_def storeMp3File_artist_def storeMp3File_track_def
  storeMp3File_publication_def setArtistPubkey_def run_defs ex_env_sel ex_cfg_sel ex_mp3_sel
  ex_slugs ex_Join Let_def

section \<open>The sync loop\<close>

text \<open>
  C6, as stated, fails. The claim: a failure arising from one peer (unreachable host,
  connection failure, rejected publication) never aborts the sync of the remaining peers.
  Two peers are stored and the client for the first cannot be created: main logs with
  \<open>log.Fatalf\<close> and the process exits; nothing is done for the second peer.
\<close>

theorem C6_new_client_failure_ends_sync:
  "syncPeers (ex_env (Some (), None) True None [''10.0.0.2:53545''] []) ex_cfg ()
     [ex_peer ''03k2'' ''10.0.0.2'', ex_peer ''03k3'' ''10.0.0.3''] 0 =
   ([Printf ''austk main sync from peer %v'',
     NewClientCall ''socks5://127.0.0.1:9050'' ''10.0.0.2:53545''
       (Inl (ExternalError ''dial failed'')),
     Fatalf ''austk main NewClient via torProxy %v to peerAddress %v, error: %v''],
    0, Exit)"
  by (simp add: ex_sync)

text \<open>
  C6, amended. For a peer that is not this node: when the client is created and
  \<open>SyncFromPeer\<close> returns an error, the error is logged, the connection is closed, and the
  loop goes on with the remaining peers from the world that the failed sync left; the
  run is these five events followed by the run over the remaining peers. When the client
  cannot be created, the run ends in \<open>log.Fatalf\<close> and the remaining peers are not synced.
\<close>

theorem C6_sync_error_skips_peer:
  assumes "\<not> isSelf cfg peer"
    and "NewClient env (TorProxy cfg) (peerAddress peer) austkServer w = (dialed, w1)"
  shows "(dialed = Inr client \<and> SyncFromPeer env client w1 = ((resources, Some err), w2) \<longrightarrow>
            syncPeers env cfg austkServer (peer # peers) w =
              (case syncPeers env cfg austkServer peers (CloseConnection env client w2) of
                 (t, w3, r) \<Rightarrow>
                   ([Printf ''austk main sync from peer %v'',
                     NewClientCall (TorProxy cfg) (peerAddress peer) (Inr client),
                     SyncFromPeerCall client (resources, Some err),
                     Printf ''austk main SyncFromPeer error: %v'',
                     CloseConnectionCall client] @ t, w3, r)))
         \<and> (dialed = Inl failure \<longrightarrow>
            syncPeers env cfg austkServer (peer # peers) w =
              ([Printf ''austk main sync from peer %v'',
                NewClientCall (TorProxy cfg) (peerAddress peer) (Inl failure),
                Fatalf ''austk main NewClient via torProxy %v to peerAddress %v, error: %v''],
               w1, Exit))"
  using assms by (simp add: syncPeer_def run_defs split: prod.splits)

text \<open>The first of two peers is unreachable in \<open>SyncFromPeer\<close>: the second is synced. The
  client for the first of two peers cannot be created: the process exits.\<close>

theorem C6_sync_error_skips_peer_witness:
  "\<not> isSelf ex_cfg (ex_peer ''03k2'' ''10.0.0.2'')
   \<and> syncPeers (ex_env (Some (), None) True None [] [''10.0.0.2:53545'']) ex_cfg ()
       [ex_peer ''03k2'' ''10.0.0.2'', ex_peer ''03k3'' ''10.0.0.3''] 0 =
     ([Printf ''austk main sync from peer %v'',
       NewClientCall ''socks5://127.0.0.1:9050'' ''10.0.0.2:53545'' (Inr ''10.0.0.2:53545''),
       SyncFromPeerCall ''10.0.0.2:53545'' (None, Some (ExternalError ''unreachable'')),
       Printf ''austk main SyncFromPeer error: %v'',
       CloseConnectionCall ''10.0.0.2:53545'',
       Printf ''austk main sync from peer %v'',
       NewClientCall ''socks5://127.0.0.1:9050'' ''10.0.0.3:53545'' (Inr ''10.0.0.3:53545''),
       SyncFromPeerCall ''10.0.0.3:53545'' (Some ex_resources, None),
       Printf ''will not play tracks'',
       CloseConnectionCall ''10.0.0.3:53545''],
      1, Return ())
   \<and> syncPeers (ex_env (Some (), None) True None [''10.0.0.2:53545''] []) ex_cfg ()
       [ex_peer ''03k2'' ''10.0.0.2'', ex_peer ''03k3'' ''10.0.0.3''] 0 =
     ([Printf ''austk main sync from peer %v'',
       NewClientCall ''socks5://127.0.0.1:9050'' ''10.0.0.2:53545''
         (Inl (ExternalError ''dial failed'')),
       Fatalf ''austk main NewClient via torProxy %v to peerAddress %v, error: %v''],
      0, Exit)"
  using C6_sync_error_skips_peer
          [of ex_cfg "ex_peer ''03k2'' ''10.0.0.2''"
              "ex_env (Some (), None) True None [] [''10.0.0.2:53545'']" "()" 0
              "Inr ''10.0.0.2:53545''" 0 "''10.0.0.2:53545''" None
              "ExternalError ''unreachable''" 0 "[ex_peer ''03k3'' ''10.0.0.3'']"
              "ExternalError ''dial failed''"]
        C6_sync_error_skips_peer
          [of ex_cfg "ex_peer ''03k2'' ''10.0.0.2''"
              "ex_env (Some (), None) True None [''10.0.0.2:53545''] []" "()" 0
              "Inl (ExternalError ''dial failed'')" 0 "''10.0.0.2:53545''" None
              "ExternalError ''unreachable''" 0 "[ex_peer ''03k3'' ''10.0.0.3'']"
              "ExternalError ''dial failed''"]
  by (simp add: ex_sync)

text \<open>
  C7. A peer entry whose pubkey is the configured pubkey and whose host is the configured
  host makes the loop body log one line and nothing else: no client is created, no
  collaborator is called, the world is unchanged. Wherever the entry stands in the peer
  list, the run of the loop is the run over the entries before it, that one line, and
  the run over the entries after it.
\<close>

theorem C7_self_entry_skipped:
  assumes "Peer_Pubkey peer = Config_Pubkey cfg" and "Peer_Host peer = RestHost cfg"
  shows "syncPeer env cfg austkServer peer w =
           ([Printf ''austk main skip sync from self pubkey %v''], w, Return ())
         \<and> syncPeers env cfg austkServer (before @ peer # after) w =
           (case syncPeers env cfg austkServer before w of
              (t, w1, Return u) \<Rightarrow>
                (case syncPeers env cfg austkServer after w1 of
                   (t', w2, r) \<Rightarrow>
                     (t @ Printf ''austk main skip sync from self pubkey %v'' # t', w2, r))
            | (t, w1, Panic) \<Rightarrow> (t, w1, Panic)
            | (t, w1, Exit) \<Rightarrow> (t, w1, Exit))"
proof -
  from assms have skip: "\<And>w. syncPeer env cfg austkServer peer w =
      ([Printf ''austk main skip sync from self pubkey %v''], w, Return ())"
    by (simp add: syncPeer_def isSelf_def logPrintf_def)
  show ?thesis
    by (simp add: skip syncPeers_append andThen_def split: prod.splits outcome.splits)
qed

theorem C7_self_entry_skipped_witness:
  "Peer_Pubkey (ex_peer ''02k1'' ''10.0.0.1'') = Config_Pubkey ex_cfg
   \<and> Peer_Host (ex_peer ''02k1'' ''10.0.0.1'') = RestHost ex_cfg
   \<and> syncPeers (ex_env (Some (), None) True None [] []) ex_cfg ()
       [ex_peer ''03k2'' ''10.0.0.2'', ex_peer ''02k1'' ''10.0.0.1'',
        ex_peer ''03k3'' ''10.0.0.3''] 0 =
     ([Printf ''austk main sync from peer %v'',
       NewClientCall ''socks5://127.0.0.1:9050'' ''10.0.0.2:53545'' (Inr ''10.0.0.2:53545''),
       SyncFromPeerCall ''10.0.0.2:53545'' (Some ex_resources, None),
       Printf ''will not play tracks'',
       CloseConnectionCall ''10.0.0.2:53545'',
       Printf ''austk main skip sync from self pubkey %v'',
       Printf ''austk main sync from peer %v'',
       NewClientCall ''socks5://127.0.0.1:9050'' ''10.0.0.3:53545'' (Inr ''10.0.0.3:53545''),
       SyncFromPeerCall ''10.0.0.3:53545'' (Some ex_resources, None),
       Printf ''will not play tracks'',
       CloseConnectionCall ''10.0.0.3:53545''],
      2, Return ())"
  using C7_self_entry_skipped
          [of "ex_peer ''02k1'' ''10.0.0.1''" ex_cfg
              "ex_env (Some (), None) True None [] []" "()" 0
              "[ex_peer ''03k2'' ''10.0.0.2'']" "[ex_peer ''03k3'' ''10.0.0.3'']"]
  by (simp add: ex_sync)

section \<open>storeMp3File\<close>

text \<open>
  C8. The claim: every content store failure while storeMp3File persists the artist, the
  album, the track, the payload and the publication is propagated, and storeMp3File
  never returns success after a store call has failed. The file is in the album "Dirt"
  and \<open>StoreAlbum\<close> fails with "disk full" while every other call succeeds: the failed call
  is in the trace, and storeMp3File returns the mp3 and a nil error.
\<close>

theorem C8_store_album_failure_dropped:
  "StoreAlbumCall
     \<lparr>Album_ArtistId = ''aliceinchains'', Album_ArtistAlbumId = ''dirt'',
        Album_Title = ''Dirt'', Album_ArtistTrackId = []\<rparr>
     (Some (ExternalError ''disk full''))
     \<in> set (fst (storeMp3File
                   (ex_env (Some (), None) True (Some (ExternalError ''disk full'')) [] [])
                   ex_cfg ''/media/recordings/dirt/would.mp3'' () 0))
   \<and> snd (snd (storeMp3File
                  (ex_env (Some (), None) True (Some (ExternalError ''disk full'')) [] [])
                  ex_cfg ''/media/recordings/dirt/would.mp3'' () 0))
       = Return (Some (ex_mp3 True), None)"
  by (simp add: ex_store)

subsection \<open>A successful storeMp3File has stored the track\<close>





section \<open>The injected publisher\<close>



end
